theory Spec2Isabelle
  imports Complex_Main
begin

section \<open>Configuration and errors\<close>

text \<open>
  The constructor arguments of \<open>Demucs.__init__\<close> that decide shapes and control flow.
  Python integers are unbounded, so they are \<open>int\<close>. \<open>growth\<close> is documented as a float; it
  is a rational here and \<open>int(growth * hidden)\<close> truncates the exact product towards zero.
  The arguments \<open>rescale\<close>, \<open>floor\<close> and \<open>sample_rate\<close> are left out: \<open>rescale\<close> only divides
  the initial weights by a factor, \<open>floor\<close> is added to a divisor and \<open>sample_rate\<close> is
  stored; none of them changes a shape.
\<close>

record config =
  chin :: int
  chout :: int
  hidden :: int
  depth :: int
  kernel_size :: int
  stride :: int
  causal :: bool
  resample :: int
  growth :: rat
  max_hidden :: int
  normalize :: bool
  glu :: bool
  n_bits :: int
  kernel_out :: int

text \<open>The defaults of the signature of \<open>Demucs.__init__\<close>.\<close>

definition default_config :: config where
  "default_config =
     \<lparr>chin = 2, chout = 2, hidden = 64, depth = 5, kernel_size = 8, stride = 2,
      causal = False, resample = 2, growth = 2, max_hidden = 10000, normalize = False,
      glu = True, n_bits = 5120, kernel_out = 64\<rparr>"

datatype error =
    ValueError string
  | ZeroDivisionError
  | IndexError
  | RuntimeError

section \<open>valid_length\<close>

text \<open>
  \<open>math.ceil(a / b)\<close> on integers: the least integer not below the quotient. Python
  computes the quotient in floating point, which is exact for the lengths of real
  waveforms (below \<open>2^53\<close>); the model is exact everywhere.
\<close>

definition ceil_div :: "int \<Rightarrow> int \<Rightarrow> int" where
  "ceil_div a b = - ((- a) div b)"

text \<open>The body of the first loop of \<open>valid_length\<close> (one encoder convolution).\<close>

definition shrink :: "config \<Rightarrow> int \<Rightarrow> int" where
  "shrink c l = max (ceil_div (l - kernel_size c) (stride c) + 1) 1"

text \<open>The body of the second loop (one transposed convolution).\<close>

definition expand :: "config \<Rightarrow> int \<Rightarrow> int" where
  "expand c l = (l - 1) * stride c + kernel_size c"

text \<open>
  \<open>for idx in range(self.depth)\<close>, the counter being the number of iterations left. The
  division raises \<open>ZeroDivisionError\<close> when the stride is zero.
\<close>

fun shrink_loop :: "config \<Rightarrow> nat \<Rightarrow> int \<Rightarrow> error + int" where
  "shrink_loop c 0 l = Inr l"
| "shrink_loop c (Suc n) l =
     (if stride c = 0 then Inl ZeroDivisionError else shrink_loop c n (shrink c l))"

fun expand_loop :: "config \<Rightarrow> nat \<Rightarrow> int \<Rightarrow> int" where
  "expand_loop c 0 l = l"
| "expand_loop c (Suc n) l = expand_loop c n (expand c l)"

definition valid_length :: "config \<Rightarrow> int \<Rightarrow> error + int" where
  "valid_length c len =
     (case shrink_loop c (nat (depth c)) (len * resample c) of
        Inl e \<Rightarrow> Inl e
      | Inr l \<Rightarrow>
          if resample c = 0 then Inl ZeroDivisionError
          else Inr (ceil_div (expand_loop c (nat (depth c)) l) (resample c)))"

text \<open>
  A valid configuration: a resample factor the constructor accepts, a non-negative depth,
  and a kernel size and stride of at least one.
\<close>

definition valid_config :: "config \<Rightarrow> bool" where
  "valid_config c =
     ((resample c = 1 \<or> resample c = 2 \<or> resample c = 4) \<and> 0 \<le> depth c
      \<and> 1 \<le> kernel_size c \<and> 1 \<le> stride c)"



text \<open>The length reached after the expansions, before the division by the resample factor.\<close>

definition expanded_length :: "config \<Rightarrow> int \<Rightarrow> int" where
  "expanded_length c len =
     (expand c ^^ nat (depth c)) ((shrink c ^^ nat (depth c)) (len * resample c))"


section \<open>Construction\<close>

text \<open>
  The submodules the constructor creates. \<open>Conv1d\<close> and \<open>ConvTranspose1d\<close> carry input
  channels, output channels, kernel size and stride; \<open>GLU\<close> carries the dimension it
  halves; \<open>LSTM\<close> carries input size, hidden size, number of layers and the
  bidirectional flag; \<open>Linear\<close> carries input and output features.
\<close>

datatype layer =
    Conv1d int int int int
  | ConvTranspose1d int int int int
  | ReLU
  | GLU nat
  | LSTM int int nat bool
  | Linear int int

text \<open>Whether a submodule owns parameter tensors.\<close>

fun has_parameters :: "layer \<Rightarrow> bool" where
  "has_parameters ReLU = False"
| "has_parameters (GLU d) = False"
| "has_parameters l = True"

text \<open>
  \<open>class BLSTM\<close>: the recurrent cell and, when bidirectional, the linear projection
  (\<open>None\<close> otherwise).
\<close>

record blstm =
  lstm_cell :: layer
  linear :: "layer option"

definition BLSTM :: "int \<Rightarrow> bool \<Rightarrow> blstm" where
  "BLSTM d bi =
     \<lparr>lstm_cell = LSTM d d 2 bi, linear = (if bi then Some (Linear (2 * d) d) else None)\<rparr>"

text \<open>
  One \<open>nn.Sequential\<close> of the encoder or decoder list. \<open>built_at\<close> is the value of the
  loop variable \<open>index\<close> in the iteration that created it; the code does not store it, it
  only names the stage.
\<close>

record stage =
  built_at :: nat
  layers :: "layer list"

record demucs =
  cfg :: config
  output_bit :: layer
  output_bit1 :: layer
  output_bit2 :: layer
  encoder :: "stage list"
  decoder :: "stage list"
  lstm :: blstm

text \<open>\<open>int(x)\<close> on a number: truncation towards zero.\<close>

definition py_int :: "rat \<Rightarrow> int" where
  "py_int q = (if 0 \<le> q then \<lfloor>q\<rfloor> else \<lceil>q\<rceil>)"

text \<open>
  The variables the loop \<open>for index in range(depth)\<close> of the constructor updates:
  \<open>chin\<close>, \<open>chout\<close>, \<open>hidden\<close>, the two module lists, and the parameterised submodules
  allocated so far, in order of allocation.
\<close>

record build_state =
  b_chin :: int
  b_chout :: int
  b_hidden :: int
  b_encoder :: "stage list"
  b_decoder :: "stage list"
  b_allocated :: "layer list"

definition activation :: "config \<Rightarrow> layer" where
  "activation c = (if glu c then GLU 1 else ReLU)"

definition ch_scale :: "config \<Rightarrow> int" where
  "ch_scale c = (if glu c then 2 else 1)"

text \<open>The loop body: \<open>append\<close> adds at the end, \<open>insert(0, ...)\<close> at the front.\<close>

definition build_step :: "config \<Rightarrow> nat \<Rightarrow> build_state \<Rightarrow> build_state" where
  "build_step c index st =
     (let encode = [Conv1d (b_chin st) (b_hidden st) (kernel_size c) (stride c), ReLU,
                    Conv1d (b_hidden st) (b_hidden st * ch_scale c) 1 1, activation c];
          decode = [Conv1d (b_hidden st) (ch_scale c * b_hidden st) 1 1, activation c,
                    ConvTranspose1d (b_hidden st) (b_chout st) (kernel_size c) (stride c)]
                   @ (if 0 < index then [ReLU] else [])
      in \<lparr>b_chin = b_hidden st,
          b_chout = b_hidden st,
          b_hidden = min (py_int (growth c * of_int (b_hidden st))) (max_hidden c),
          b_encoder = b_encoder st @ [\<lparr>built_at = index, layers = encode\<rparr>],
          b_decoder = \<lparr>built_at = index, layers = decode\<rparr> # b_decoder st,
          b_allocated = b_allocated st @ filter has_parameters (encode @ decode)\<rparr>)"

text \<open>
  \<open>Demucs.__init__\<close>. The result is the model or the error raised, together with the
  parameterised submodules allocated up to that point. \<open>40960 // kernel_out\<close> raises
  \<open>ZeroDivisionError\<close> for a zero \<open>kernel_out\<close>, and \<open>n_bits // factor\<close> does for a
  \<open>kernel_out\<close> above 40960, both while the arguments of the first convolution are
  computed. The checks that the constructors of the framework make on their own arguments
  are not part of this file.
\<close>

definition init :: "config \<Rightarrow> (error + demucs) \<times> layer list" where
  "init c =
     (if resample c \<notin> set [1, 2, 4] then (Inl (ValueError ''Resample should be 1, 2 or 4.''), [])
      else if kernel_out c = 0 \<or> 40960 div kernel_out c = 0 then (Inl ZeroDivisionError, [])
      else
        let factor = 40960 div kernel_out c;
            ob = Conv1d (chout c) (n_bits c div factor) (kernel_out c) (kernel_out c);
            ob1 = Conv1d (chout c) (kernel_out c) (kernel_out c) (kernel_out c);
            ob2 = Conv1d 1 (n_bits c div factor) (kernel_out c) (kernel_out c);
            st = fold (build_step c) [0..<nat (depth c)]
                   \<lparr>b_chin = chin c, b_chout = chout c, b_hidden = hidden c,
                    b_encoder = [], b_decoder = [], b_allocated = [ob, ob1, ob2]\<rparr>;
            rnn = BLSTM (b_chin st) (\<not> causal c)
        in (Inr \<lparr>cfg = c, output_bit = ob, output_bit1 = ob1, output_bit2 = ob2,
                 encoder = b_encoder st, decoder = b_decoder st, lstm = rnn\<rparr>,
            b_allocated st @ lstm_cell rnn # (case linear rnn of None \<Rightarrow> [] | Some l \<Rightarrow> [l])))"

text \<open>
  The value of the loop variable \<open>hidden\<close>, and of \<open>chin\<close> and \<open>chout\<close>, at the start of
  iteration \<open>i\<close>.
\<close>

fun hidden_at :: "config \<Rightarrow> nat \<Rightarrow> int" where
  "hidden_at c 0 = hidden c"
| "hidden_at c (Suc i) = min (py_int (growth c * of_int (hidden_at c i))) (max_hidden c)"

definition chin_at :: "config \<Rightarrow> nat \<Rightarrow> int" where
  "chin_at c i = (if i = 0 then chin c else hidden_at c (i - 1))"

definition chout_at :: "config \<Rightarrow> nat \<Rightarrow> int" where
  "chout_at c i = (if i = 0 then chout c else hidden_at c (i - 1))"

text \<open>The stages iteration \<open>i\<close> creates, in terms of these values.\<close>

definition enc_stage :: "config \<Rightarrow> nat \<Rightarrow> stage" where
  "enc_stage c i =
     \<lparr>built_at = i,
      layers = [Conv1d (chin_at c i) (hidden_at c i) (kernel_size c) (stride c), ReLU,
                Conv1d (hidden_at c i) (hidden_at c i * ch_scale c) 1 1, activation c]\<rparr>"

definition dec_stage :: "config \<Rightarrow> nat \<Rightarrow> stage" where
  "dec_stage c i =
     \<lparr>built_at = i,
      layers = [Conv1d (hidden_at c i) (ch_scale c * hidden_at c i) 1 1, activation c,
                ConvTranspose1d (hidden_at c i) (chout_at c i) (kernel_size c) (stride c)]
               @ (if 0 < i then [ReLU] else [])\<rparr>"

text \<open>
  A configuration with a fractional growth factor, and one whose initial width exceeds
  \<open>max_hidden\<close>.
\<close>

definition wide_config :: config where
  "wide_config = default_config\<lparr>depth := 2, max_hidden := 32\<rparr>"

definition fractional_config :: config where
  "fractional_config = default_config\<lparr>hidden := 3, depth := 2, growth := 3 / 2\<rparr>"

section \<open>The forward pass on shapes\<close>

text \<open>
  A tensor is represented by its shape, the list of its dimensions, and every operation of
  the numeric framework by what it does to the shape or the error it raises. A
  convolution takes a batched input (batch, channels, time) or an unbatched one
  (channels, time), needs as many channels as it was created with and a time axis at
  least as long as its kernel; \<open>transpose(x, 1, 2)\<close> needs three dimensions; addition and
  multiplication broadcast from the trailing dimension.
\<close>

type_synonym shape = "int list"

definition and_then :: "error + 'a \<Rightarrow> ('a \<Rightarrow> error + 'b) \<Rightarrow> error + 'b" where
  "and_then r f = (case r of Inl e \<Rightarrow> Inl e | Inr x \<Rightarrow> f x)"

text \<open>\<open>x.shape[-1]\<close>.\<close>

definition last_dim :: "shape \<Rightarrow> error + int" where
  "last_dim x = (if x = [] then Inl IndexError else Inr (last x))"

definition set_last :: "shape \<Rightarrow> int \<Rightarrow> shape" where
  "set_last x n = butlast x @ [n]"

text \<open>\<open>x[..., :n]\<close> for a length \<open>n\<close>.\<close>

definition take_last :: "shape \<Rightarrow> int \<Rightarrow> error + shape" where
  "take_last x n = (if x = [] then Inl IndexError else Inr (set_last x (min (last x) n)))"

text \<open>\<open>F.pad(x, (0, p))\<close>; a negative \<open>p\<close> crops.\<close>

definition pad_right :: "shape \<Rightarrow> int \<Rightarrow> error + shape" where
  "pad_right x p =
     (if x = [] then Inl RuntimeError
      else if last x + p < 0 then Inl RuntimeError
      else Inr (set_last x (last x + p)))"

definition unsqueeze1 :: "shape \<Rightarrow> error + shape" where
  "unsqueeze1 x = (if x = [] then Inl IndexError else Inr (hd x # 1 # tl x))"

definition transpose12 :: "shape \<Rightarrow> error + shape" where
  "transpose12 x = (if length x < 3 then Inl IndexError else Inr (x[1 := x ! 2, 2 := x ! 1]))"

text \<open>\<open>torch.flatten(x, start_dim=1)\<close>.\<close>

definition flatten1 :: "shape \<Rightarrow> error + shape" where
  "flatten1 x = (if length x < 2 then Inl IndexError else Inr [hd x, prod_list (tl x)])"

text \<open>\<open>x.permute(2, 0, 1)\<close> and \<open>x.permute(1, 2, 0)\<close>.\<close>

fun permute201 :: "shape \<Rightarrow> error + shape" where
  "permute201 [a, b, c] = Inr [c, a, b]"
| "permute201 x = Inl RuntimeError"

fun permute120 :: "shape \<Rightarrow> error + shape" where
  "permute120 [a, b, c] = Inr [b, c, a]"
| "permute120 x = Inl RuntimeError"

text \<open>Broadcasting of two shapes, read from the trailing dimension.\<close>

fun broadcast_rev :: "shape \<Rightarrow> shape \<Rightarrow> error + shape" where
  "broadcast_rev [] ys = Inr ys"
| "broadcast_rev (x # xs) [] = Inr (x # xs)"
| "broadcast_rev (x # xs) (y # ys) =
     (if x = y \<or> y = 1 then and_then (broadcast_rev xs ys) (\<lambda>r. Inr (x # r))
      else if x = 1 then and_then (broadcast_rev xs ys) (\<lambda>r. Inr (y # r))
      else Inl RuntimeError)"

definition broadcast :: "shape \<Rightarrow> shape \<Rightarrow> error + shape" where
  "broadcast a b = and_then (broadcast_rev (rev a) (rev b)) (\<lambda>r. Inr (rev r))"

fun conv1d :: "int \<Rightarrow> int \<Rightarrow> int \<Rightarrow> int \<Rightarrow> shape \<Rightarrow> error + shape" where
  "conv1d ci co k s [n, ch, l] =
     (if ch = ci \<and> 1 \<le> k \<and> k \<le> l \<and> 1 \<le> s then Inr [n, co, (l - k) div s + 1]
      else Inl RuntimeError)"
| "conv1d ci co k s [ch, l] =
     (if ch = ci \<and> 1 \<le> k \<and> k \<le> l \<and> 1 \<le> s then Inr [co, (l - k) div s + 1]
      else Inl RuntimeError)"
| "conv1d ci co k s x = Inl RuntimeError"

fun conv_transpose1d :: "int \<Rightarrow> int \<Rightarrow> int \<Rightarrow> int \<Rightarrow> shape \<Rightarrow> error + shape" where
  "conv_transpose1d ci co k s [n, ch, l] =
     (if ch = ci \<and> 1 \<le> k \<and> 1 \<le> l \<and> 1 \<le> s then Inr [n, co, (l - 1) * s + k]
      else Inl RuntimeError)"
| "conv_transpose1d ci co k s [ch, l] =
     (if ch = ci \<and> 1 \<le> k \<and> 1 \<le> l \<and> 1 \<le> s then Inr [co, (l - 1) * s + k]
      else Inl RuntimeError)"
| "conv_transpose1d ci co k s x = Inl RuntimeError"

definition glu_shape :: "nat \<Rightarrow> shape \<Rightarrow> error + shape" where
  "glu_shape d x =
     (if d < length x \<and> even (x ! d) then Inr (x[d := x ! d div 2]) else Inl RuntimeError)"

text \<open>The recurrent cell takes (time, batch, features) and needs a non-empty sequence.\<close>

fun lstm_shape :: "int \<Rightarrow> int \<Rightarrow> bool \<Rightarrow> shape \<Rightarrow> error + shape" where
  "lstm_shape i h bi [t, b, f] =
     (if f = i \<and> 1 \<le> t then Inr [t, b, if bi then 2 * h else h] else Inl RuntimeError)"
| "lstm_shape i h bi [t, f] =
     (if f = i \<and> 1 \<le> t then Inr [t, if bi then 2 * h else h] else Inl RuntimeError)"
| "lstm_shape i h bi x = Inl RuntimeError"

definition linear_shape :: "int \<Rightarrow> int \<Rightarrow> shape \<Rightarrow> error + shape" where
  "linear_shape i out x =
     (if x = [] then Inl RuntimeError
      else if last x = i then Inr (set_last x out)
      else Inl RuntimeError)"

fun apply_layer :: "layer \<Rightarrow> shape \<Rightarrow> error + shape" where
  "apply_layer (Conv1d ci co k s) x = conv1d ci co k s x"
| "apply_layer (ConvTranspose1d ci co k s) x = conv_transpose1d ci co k s x"
| "apply_layer ReLU x = Inr x"
| "apply_layer (GLU d) x = glu_shape d x"
| "apply_layer (LSTM i h n bi) x = lstm_shape i h bi x"
| "apply_layer (Linear i out) x = linear_shape i out x"

text \<open>\<open>nn.Sequential\<close>.\<close>

fun sequential :: "layer list \<Rightarrow> shape \<Rightarrow> error + shape" where
  "sequential [] x = Inr x"
| "sequential (l # ls) x = and_then (apply_layer l x) (sequential ls)"

text \<open>\<open>BLSTM.forward\<close>; the final hidden state it also returns is dropped by the caller.\<close>

definition blstm_forward :: "blstm \<Rightarrow> shape \<Rightarrow> error + shape" where
  "blstm_forward b x =
     and_then (apply_layer (lstm_cell b) x)
       (\<lambda>y. case linear b of None \<Rightarrow> Inr y | Some l \<Rightarrow> apply_layer l y)"

text \<open>
  Modelled from the spec: \<open>upsample2\<close> of the module \<open>resample\<close>, which is not among the
  sources. The specification describes a doubling of the time axis.
\<close>

definition upsample2 :: "shape \<Rightarrow> shape" where
  "upsample2 x = (if x = [] then [] else set_last x (2 * last x))"

text \<open>
  Modelled from the spec: \<open>downsample2\<close> of the same module, the inverse of the doubling.
  An odd length, on which the specification is silent, is halved rounding up.
\<close>

definition downsample2 :: "shape \<Rightarrow> shape" where
  "downsample2 x = (if x = [] then [] else set_last x ((last x + 1) div 2))"

text \<open>
  The first loop of \<open>forward\<close>. Each skip is stored with the \<open>built_at\<close> of the encoder stage
  that produced it.
\<close>

fun encode_loop ::
  "stage list \<Rightarrow> shape \<Rightarrow> (nat \<times> shape) list \<Rightarrow> error + shape \<times> (nat \<times> shape) list" where
  "encode_loop [] x skips = Inr (x, skips)"
| "encode_loop (e # es) x skips =
     (case sequential (layers e) x of
        Inl err \<Rightarrow> Inl err
      | Inr y \<Rightarrow> encode_loop es y (skips @ [(built_at e, y)]))"

text \<open>
  What one pass through the body of the second loop did: the decoder stage applied, the
  skip popped and the stage it came from, the skip after \<open>skip[..., :x.shape[-1]]\<close>, the
  feature map before the addition and the sum.
\<close>

record addition =
  stage_index :: nat
  skip_index :: nat
  skip_shape :: shape
  cut_shape :: shape
  x_shape :: shape
  sum_shape :: shape

text \<open>The second loop; \<open>skips.pop(-1)\<close> raises \<open>IndexError\<close> on an empty list.\<close>

fun decode_loop ::
  "stage list \<Rightarrow> shape \<Rightarrow> (nat \<times> shape) list \<Rightarrow> addition list
   \<Rightarrow> error + shape \<times> addition list" where
  "decode_loop [] x skips adds = Inr (x, adds)"
| "decode_loop (d # ds) x skips adds =
     (if skips = [] then Inl IndexError
      else
        case last_dim x of
          Inl err \<Rightarrow> Inl err
        | Inr n \<Rightarrow>
            (case take_last (snd (last skips)) n of
               Inl err \<Rightarrow> Inl err
             | Inr trimmed \<Rightarrow>
                 (case broadcast x trimmed of
                    Inl err \<Rightarrow> Inl err
                  | Inr y \<Rightarrow>
                      (case sequential (layers d) y of
                         Inl err \<Rightarrow> Inl err
                       | Inr z \<Rightarrow>
                           decode_loop ds z (butlast skips)
                             (adds @ [\<lparr>stage_index = built_at d,
                                       skip_index = fst (last skips),
                                       skip_shape = snd (last skips),
                                       cut_shape = trimmed, x_shape = x, sum_shape = y\<rparr>])))))"

text \<open>
  The shape of \<open>std\<close>: that of the input with the channel and time axes reduced to one
  when \<open>normalize\<close> is set, the number 1 otherwise. Dividing the input by
  \<open>floor + std\<close> leaves its shape as it is.
\<close>

definition std_shape :: "demucs \<Rightarrow> shape \<Rightarrow> error + shape" where
  "std_shape m mix =
     (if normalize (cfg m)
      then (if length mix < 2 then Inl IndexError else Inr (set_last (mix[1 := 1]) 1))
      else Inr [])"

record trunk =
  t_std :: shape
  t_x :: shape
  t_additions :: "addition list"

text \<open>\<open>forward\<close> up to and including \<open>x = x[..., :length]\<close>.\<close>

definition forward_trunk :: "demucs \<Rightarrow> shape \<Rightarrow> error + trunk" where
  "forward_trunk m mix0 =
     and_then (if length mix0 = 2 then unsqueeze1 mix0 else Inr mix0) (\<lambda>mix.
     and_then (std_shape m mix) (\<lambda>std.
     and_then (last_dim mix) (\<lambda>len.
     and_then (valid_length (cfg m) len) (\<lambda>vl.
     and_then (pad_right mix (vl - len)) (\<lambda>padded.
     and_then (encode_loop (encoder m)
                 (if resample (cfg m) = 2 then upsample2 padded
                  else if resample (cfg m) = 4 then upsample2 (upsample2 padded)
                  else padded) []) (\<lambda>(enc, skips).
     and_then (permute201 enc) (\<lambda>seq.
     and_then (blstm_forward (lstm m) seq) (\<lambda>rec.
     and_then (permute120 rec) (\<lambda>bottleneck.
     and_then (decode_loop (decoder m) bottleneck skips []) (\<lambda>(dec, adds).
     and_then (take_last
                 (if resample (cfg m) = 2 then downsample2 dec
                  else if resample (cfg m) = 4 then downsample2 (downsample2 dec)
                  else dec) len) (\<lambda>x.
     Inr \<lparr>t_std = std, t_x = x, t_additions = adds\<rparr>)))))))))))"

text \<open>The first output head and its time-major flattening; \<open>x\<close> is rebound to the result.\<close>

definition bit_head :: "demucs \<Rightarrow> shape \<Rightarrow> error + shape" where
  "bit_head m x =
     and_then (apply_layer (output_bit m) x) (\<lambda>y. and_then (transpose12 y) flatten1)"

text \<open>The second head, applied to \<open>x\<close> as rebound by the first.\<close>

definition v2_head :: "demucs \<Rightarrow> shape \<Rightarrow> error + shape" where
  "v2_head m x =
     and_then (apply_layer (output_bit1 m) x) (\<lambda>x1.
     and_then (and_then (transpose12 x1) flatten1) (\<lambda>flattened_x1.
     and_then (unsqueeze1 flattened_x1) (\<lambda>x_v2.
     and_then (apply_layer (output_bit2 m) x_v2) (\<lambda>y.
     and_then (transpose12 y) flatten1))))"

text \<open>\<open>forward\<close> up to the first head: the shapes of \<open>std\<close> and of the flattened \<open>x\<close>.\<close>

definition forward_bits :: "demucs \<Rightarrow> shape \<Rightarrow> error + shape \<times> shape" where
  "forward_bits m mix =
     and_then (forward_trunk m mix) (\<lambda>t.
     and_then (bit_head m (t_x t)) (\<lambda>x. Inr (t_std t, x)))"

definition forward :: "demucs \<Rightarrow> shape \<Rightarrow> error + shape" where
  "forward m mix =
     and_then (forward_bits m mix) (\<lambda>(std, x).
     and_then (v2_head m x) (\<lambda>x_v2. broadcast std x))"


text \<open>
  A configuration whose padded input is longer than the encoder needs: two stages with
  kernel size 5, stride 2 and resample factor 4.
\<close>

definition slack_config :: config where
  "slack_config = default_config\<lparr>depth := 2, kernel_size := 5, resample := 4\<rparr>"

section \<open>Facts about valid_length\<close>


lemma ceil_div_mono: "0 < b \<Longrightarrow> a \<le> a' \<Longrightarrow> ceil_div a b \<le> ceil_div a' b"
  by (simp add: ceil_div_def zdiv_mono1)

lemma ceil_div_mult: "b \<noteq> 0 \<Longrightarrow> ceil_div (x * b) b = x"
proof -
  assume "b \<noteq> 0"
  then have "(- x * b) div b = - x" by (rule nonzero_mult_div_cancel_right)
  then show ?thesis by (simp add: ceil_div_def)
qed

lemma ceil_div_least: "0 < b \<Longrightarrow> a \<le> n * b \<Longrightarrow> ceil_div a b \<le> n"
proof -
  assume b: "0 < b" and "a \<le> n * b"
  then have "ceil_div a b \<le> ceil_div (n * b) b" by (rule ceil_div_mono)
  with b show ?thesis by (simp add: ceil_div_mult)
qed

lemma shrink_loop_eq: "stride c \<noteq> 0 \<Longrightarrow> shrink_loop c n l = Inr ((shrink c ^^ n) l)"
  by (induction n arbitrary: l) (simp_all add: funpow_swap1)

lemma expand_loop_eq: "expand_loop c n l = (expand c ^^ n) l"
  by (induction n arbitrary: l) (simp_all add: funpow_swap1)

lemma valid_length_eq:
  "stride c \<noteq> 0 \<Longrightarrow> resample c \<noteq> 0 \<Longrightarrow>
   valid_length c len = Inr (ceil_div (expanded_length c len) (resample c))"
  by (simp add: valid_length_def shrink_loop_eq expand_loop_eq expanded_length_def)

lemma expand_mono: "0 \<le> stride c \<Longrightarrow> a \<le> b \<Longrightarrow> expand c a \<le> expand c b"
  by (simp add: expand_def mult_right_mono)

lemma shrink_mono: "0 < stride c \<Longrightarrow> a \<le> b \<Longrightarrow> shrink c a \<le> shrink c b"
  unfolding shrink_def by (intro max.mono add_mono ceil_div_mono) simp_all



lemma funpow_mono_int:
  fixes f :: "int \<Rightarrow> int"
  assumes "\<And>a b. a \<le> b \<Longrightarrow> f a \<le> f b" and "a \<le> b"
  shows "(f ^^ n) a \<le> (f ^^ n) b"
  using assms by (induction n) simp_all







lemma expanded_length_mono:
  assumes s: "0 < stride c" and r: "0 \<le> resample c" and ab: "a \<le> b"
  shows "expanded_length c a \<le> expanded_length c b"
proof -
  let ?n = "nat (depth c)"
  have "a * resample c \<le> b * resample c"
    using r ab by (simp add: mult_right_mono)
  then have "(shrink c ^^ ?n) (a * resample c) \<le> (shrink c ^^ ?n) (b * resample c)"
    using s by (auto intro!: funpow_mono_int shrink_mono)
  then show ?thesis
    unfolding expanded_length_def using s
    by (auto intro!: funpow_mono_int expand_mono)
qed









text \<open>
  C10. For every valid configuration \<open>valid_length\<close> is monotone: a longer input never
  gets a shorter valid length.
\<close>

theorem valid_length_mono:
  assumes "valid_config c" and "l1 \<le> l2"
  shows "\<exists>v1 v2. valid_length c l1 = Inr v1 \<and> valid_length c l2 = Inr v2 \<and> v1 \<le> v2"
proof -
  from assms have s: "0 < stride c" and r: "0 < resample c"
    by (auto simp: valid_config_def)
  have "expanded_length c l1 \<le> expanded_length c l2"
    using s r assms(2) by (simp add: expanded_length_mono)
  then have "ceil_div (expanded_length c l1) (resample c)
      \<le> ceil_div (expanded_length c l2) (resample c)"
    using r by (simp add: ceil_div_mono)
  then show ?thesis using s r by (simp add: valid_length_eq)
qed

theorem valid_length_mono_witness:
  "valid_config default_config \<and> (1000::int) \<le> 2000
   \<and> (\<exists>v1 v2. valid_length default_config 1000 = Inr v1
          \<and> valid_length default_config 2000 = Inr v2 \<and> v1 \<le> v2)"
proof -
  have a: "valid_config default_config"
    by (simp add: valid_config_def default_config_def)
  have b: "(1000::int) \<le> 2000" by simp
  show ?thesis by (intro conjI a b valid_length_mono [OF a b])
qed

section \<open>Facts about construction\<close>

lemma build_fold:
  "fold (build_step c) [0..<n]
     \<lparr>b_chin = chin c, b_chout = chout c, b_hidden = hidden c,
      b_encoder = [], b_decoder = [], b_allocated = A\<rparr> = st \<Longrightarrow>
   b_chin st = chin_at c n \<and> b_chout st = chout_at c n \<and> b_hidden st = hidden_at c n
   \<and> b_encoder st = map (enc_stage c) [0..<n]
   \<and> b_decoder st = rev (map (dec_stage c) [0..<n])
   \<and> length (b_allocated st) = length A + 4 * n"
proof (induction n arbitrary: st)
  case 0
  then show ?case by (auto simp: chin_at_def chout_at_def)
next
  case (Suc n)
  define st' where "st' = fold (build_step c) [0..<n]
     \<lparr>b_chin = chin c, b_chout = chout c, b_hidden = hidden c,
      b_encoder = [], b_decoder = [], b_allocated = A\<rparr>"
  have ih: "b_chin st' = chin_at c n \<and> b_chout st' = chout_at c n \<and> b_hidden st' = hidden_at c n
   \<and> b_encoder st' = map (enc_stage c) [0..<n]
   \<and> b_decoder st' = rev (map (dec_stage c) [0..<n])
   \<and> length (b_allocated st') = length A + 4 * n"
    using Suc.IH [of st'] by (simp add: st'_def)
  have st: "st = build_step c n st'"
    using Suc.prems by (simp add: st'_def)
  show ?case
    unfolding st using ih
    by (simp add: build_step_def Let_def enc_stage_def dec_stage_def chin_at_def chout_at_def
        activation_def)
qed

lemma init_Inr:
  assumes "fst (init c) = Inr m"
  shows "cfg m = c \<and> encoder m = map (enc_stage c) [0..<nat (depth c)]
     \<and> decoder m = rev (map (dec_stage c) [0..<nat (depth c)])
     \<and> lstm m = BLSTM (chin_at c (nat (depth c))) (\<not> causal c)
     \<and> output_bit m = Conv1d (chout c) (n_bits c div (40960 div kernel_out c)) (kernel_out c) (kernel_out c)
     \<and> output_bit1 m = Conv1d (chout c) (kernel_out c) (kernel_out c) (kernel_out c)
     \<and> output_bit2 m = Conv1d 1 (n_bits c div (40960 div kernel_out c)) (kernel_out c) (kernel_out c)"
proof -
  let ?A = "[Conv1d (chout c) (n_bits c div (40960 div kernel_out c)) (kernel_out c) (kernel_out c),
             Conv1d (chout c) (kernel_out c) (kernel_out c) (kernel_out c),
             Conv1d 1 (n_bits c div (40960 div kernel_out c)) (kernel_out c) (kernel_out c)]"
  let ?st = "fold (build_step c) [0..<nat (depth c)]
     \<lparr>b_chin = chin c, b_chout = chout c, b_hidden = hidden c,
      b_encoder = [], b_decoder = [], b_allocated = ?A\<rparr>"
  have f: "b_chin ?st = chin_at c (nat (depth c))
      \<and> b_encoder ?st = map (enc_stage c) [0..<nat (depth c)]
      \<and> b_decoder ?st = rev (map (dec_stage c) [0..<nat (depth c)])"
    using build_fold [OF refl, of c "nat (depth c)" ?A] by simp
  from assms have m: "m = \<lparr>cfg = c, output_bit = ?A ! 0, output_bit1 = ?A ! 1, output_bit2 = ?A ! 2,
       encoder = b_encoder ?st, decoder = b_decoder ?st,
       lstm = BLSTM (b_chin ?st) (\<not> causal c)\<rparr>"
    by (simp add: init_def Let_def split: if_splits)
  show ?thesis unfolding m using f by simp
qed

lemma init_succeeds:
  "(\<exists>m. fst (init c) = Inr m)
     = (resample c \<in> {1, 2, 4} \<and> kernel_out c \<noteq> 0 \<and> 40960 div kernel_out c \<noteq> 0)"
  by (auto simp: init_def Let_def)

lemma init_allocated:
  assumes "fst (init c) = Inr m"
  shows "length (snd (init c)) = 3 + 4 * nat (depth c) + (if causal c then 1 else 2)"
proof -
  let ?A = "[Conv1d (chout c) (n_bits c div (40960 div kernel_out c)) (kernel_out c) (kernel_out c),
             Conv1d (chout c) (kernel_out c) (kernel_out c) (kernel_out c),
             Conv1d 1 (n_bits c div (40960 div kernel_out c)) (kernel_out c) (kernel_out c)]"
  let ?st = "fold (build_step c) [0..<nat (depth c)]
     \<lparr>b_chin = chin c, b_chout = chout c, b_hidden = hidden c,
      b_encoder = [], b_decoder = [], b_allocated = ?A\<rparr>"
  have f: "length (b_allocated ?st) = 3 + 4 * nat (depth c)"
    using build_fold [OF refl, of c "nat (depth c)" ?A] by simp
  from assms have ok: "resample c \<in> set [1, 2, 4]" "kernel_out c \<noteq> 0"
      "40960 div kernel_out c \<noteq> 0"
    by (auto simp: init_def Let_def split: if_splits)
  then have "snd (init c) = b_allocated ?st @ lstm_cell (BLSTM (b_chin ?st) (\<not> causal c))
      # (case linear (BLSTM (b_chin ?st) (\<not> causal c)) of None \<Rightarrow> [] | Some l \<Rightarrow> [l])"
    by (simp add: init_def Let_def)
  then show ?thesis using f by (simp add: BLSTM_def)
qed

lemma hidden_at_int_growth:
  assumes "growth c = of_int g" and "0 \<le> g" and "hidden c \<le> max_hidden c"
    and "0 \<le> max_hidden c"
  shows "hidden_at c i = min (hidden c * g ^ i) (max_hidden c)"
proof (induction i)
  case 0
  show ?case using assms(3) by simp
next
  case (Suc i)
  have "growth c * of_int (hidden_at c i) = of_int (g * hidden_at c i)"
    using assms(1) by simp
  then have "py_int (growth c * of_int (hidden_at c i)) = g * hidden_at c i"
    by (simp only: py_int_def floor_of_int ceiling_of_int if_cancel)
  then have step: "hidden_at c (Suc i) = min (g * min (hidden c * g ^ i) (max_hidden c)) (max_hidden c)"
    using Suc by simp
  show ?case
  proof (cases "g = 0")
    case True
    then show ?thesis using step assms(4) by simp
  next
    case False
    with assms(2) have g: "1 \<le> g" by simp
    have "max_hidden c \<le> g * max_hidden c"
      using g assms(4) by (simp add: mult_le_cancel_right1)
    moreover have "g * min (hidden c * g ^ i) (max_hidden c)
        = min (g * (hidden c * g ^ i)) (g * max_hidden c)"
      using assms(2) by (simp add: min_mult_distrib_left)
    ultimately show ?thesis using step by (simp add: mult.commute mult.left_commute)
  qed
qed



text \<open>
  C6, as stated, fails on the default configuration (depth 5): the innermost decoder
  stage, the first of the list, ends with a ReLU after its transposed convolution, and
  the outermost stage, the last of the list and not the innermost, has none.
\<close>

theorem decoder_relu_counterexample:
  "map_sum id (\<lambda>m. (layers (decoder m ! 0), layers (decoder m ! 4))) (fst (init default_config))
   = Inr ([Conv1d 1024 2048 1 1, GLU 1, ConvTranspose1d 1024 512 8 2, ReLU],
          [Conv1d 64 128 1 1, GLU 1, ConvTranspose1d 64 2 8 2])"
  by code_simp

text \<open>
  C6, amended. The decoder list has \<open>depth\<close> stages, each a pointwise convolution, the
  activation and a transposed convolution; every stage except the outermost (the last of
  the list, the last applied) has a ReLU after its transposed convolution, the innermost
  included when the depth is at least 2, and the outermost has nothing after it.
\<close>

theorem decoder_relu:
  assumes "fst (init c) = Inr m" and "j < nat (depth c)"
  shows "length (decoder m) = nat (depth c)
     \<and> layers (decoder m ! j) =
         [Conv1d (hidden_at c (nat (depth c) - 1 - j))
            (ch_scale c * hidden_at c (nat (depth c) - 1 - j)) 1 1,
          activation c,
          ConvTranspose1d (hidden_at c (nat (depth c) - 1 - j))
            (chout_at c (nat (depth c) - 1 - j)) (kernel_size c) (stride c)]
         @ (if Suc j < nat (depth c) then [ReLU] else [])"
proof -
  let ?n = "nat (depth c)"
  have d: "decoder m = rev (map (dec_stage c) [0..<?n])"
    using init_Inr [OF assms(1)] by simp
  have "decoder m ! j = map (dec_stage c) [0..<?n] ! (?n - Suc j)"
    unfolding d using assms(2) by (simp add: rev_nth)
  also have "\<dots> = dec_stage c (?n - 1 - j)"
    using assms(2) by simp
  finally have "decoder m ! j = dec_stage c (?n - 1 - j)" .
  moreover have "(0 < ?n - 1 - j) = (Suc j < ?n)" by auto
  ultimately show ?thesis using d by (simp add: dec_stage_def)
qed

theorem decoder_relu_witness:
  "\<exists>m. fst (init default_config) = Inr m \<and> (4::nat) < nat (depth default_config)
     \<and> length (decoder m) = 5
     \<and> layers (decoder m ! 4) = [Conv1d 64 128 1 1, GLU 1, ConvTranspose1d 64 2 8 2]"
proof -
  obtain m where m: "fst (init default_config) = Inr m"
    using init_succeeds [of default_config] by (auto simp: default_config_def)
  have i: "(4::nat) < nat (depth default_config)" by (simp add: default_config_def)
  have "length (decoder m) = 5
     \<and> layers (decoder m ! 4) = [Conv1d 64 128 1 1, GLU 1, ConvTranspose1d 64 2 8 2]"
    using decoder_relu [OF m i]
    by (simp add: default_config_def ch_scale_def activation_def chout_at_def)
  then show ?thesis using m i by blast
qed

text \<open>
  C9, as stated, fails for a fractional growth factor: with \<open>hidden = 3\<close> and
  \<open>growth = 3/2\<close>, stage 1 has \<open>int(4.5) = 4\<close> channels where the formula gives \<open>9/2\<close>.
\<close>

theorem channel_widths_counterexample:
  "map_sum id (\<lambda>m. layers (encoder m ! 1)) (fst (init fractional_config))
     = Inr [Conv1d 3 4 8 2, ReLU, Conv1d 4 8 1 1, GLU 1]
   \<and> min (of_int (hidden fractional_config) * growth fractional_config ^ 1)
        (of_int (max_hidden fractional_config)) = (9 / 2 :: rat)"
  by code_simp

text \<open>
  The initial width is used as it is, above \<open>max_hidden\<close> or not: with \<open>hidden = 64\<close> and
  \<open>max_hidden = 32\<close> stage 0 has 64 channels and stage 1 has 32.
\<close>

lemma initial_width_unclipped:
  "map_sum id (\<lambda>m. map layers (encoder m)) (fst (init wide_config))
     = Inr [[Conv1d 2 64 8 2, ReLU, Conv1d 64 128 1 1, GLU 1],
            [Conv1d 64 32 8 2, ReLU, Conv1d 32 64 1 1, GLU 1]]"
  by code_simp

text \<open>
  C9, amended. For an integer growth factor \<open>g \<ge> 0\<close> and an initial width
  \<open>hidden \<le> max_hidden\<close>, the encoder stage \<open>i < depth\<close> has
  \<open>min (hidden * g ^ i) max_hidden\<close> hidden channels, and the decoder stage created in the
  same iteration, at position \<open>depth - 1 - i\<close> of the decoder list, takes that many input
  channels.
\<close>

theorem channel_widths:
  assumes "fst (init c) = Inr m" and "i < nat (depth c)"
    and "growth c = of_int g" and "0 \<le> g" and "hidden c \<le> max_hidden c"
    and "0 \<le> max_hidden c"
  shows "\<exists>cin cout post.
     encoder m ! i =
       \<lparr>built_at = i,
        layers = [Conv1d cin (min (hidden c * g ^ i) (max_hidden c)) (kernel_size c) (stride c),
                  ReLU,
                  Conv1d (min (hidden c * g ^ i) (max_hidden c))
                    (min (hidden c * g ^ i) (max_hidden c) * ch_scale c) 1 1,
                  activation c]\<rparr>
     \<and> decoder m ! (nat (depth c) - 1 - i) =
       \<lparr>built_at = i,
        layers = Conv1d (min (hidden c * g ^ i) (max_hidden c))
                    (ch_scale c * min (hidden c * g ^ i) (max_hidden c)) 1 1
                 # activation c
                 # ConvTranspose1d (min (hidden c * g ^ i) (max_hidden c)) cout
                     (kernel_size c) (stride c)
                 # post\<rparr>"
proof -
  let ?n = "nat (depth c)"
  have h: "hidden_at c i = min (hidden c * g ^ i) (max_hidden c)"
    using assms(3-6) by (rule hidden_at_int_growth)
  have e: "encoder m ! i = enc_stage c i"
    using init_Inr [OF assms(1)] assms(2) by simp
  have "decoder m ! (?n - 1 - i) = rev (map (dec_stage c) [0..<?n]) ! (?n - 1 - i)"
    using init_Inr [OF assms(1)] by simp
  also have "\<dots> = map (dec_stage c) [0..<?n] ! i"
    using assms(2) by (simp add: rev_nth)
  finally have d: "decoder m ! (?n - 1 - i) = dec_stage c i"
    using assms(2) by simp
  show ?thesis
    unfolding e d by (simp add: enc_stage_def dec_stage_def h)
qed

theorem channel_widths_witness:
  "\<exists>m. fst (init default_config) = Inr m \<and> (2::nat) < nat (depth default_config)
     \<and> growth default_config = of_int 2 \<and> (0::int) \<le> 2
     \<and> hidden default_config \<le> max_hidden default_config \<and> 0 \<le> max_hidden default_config
     \<and> (\<exists>cin cout post.
          encoder m ! 2 =
            \<lparr>built_at = 2, layers = [Conv1d cin 256 8 2, ReLU, Conv1d 256 512 1 1, GLU 1]\<rparr>
          \<and> decoder m ! 2 =
            \<lparr>built_at = 2,
             layers = Conv1d 256 512 1 1 # GLU 1 # ConvTranspose1d 256 cout 8 2 # post\<rparr>)"
proof -
  obtain m where m: "fst (init default_config) = Inr m"
    using init_succeeds [of default_config] by (auto simp: default_config_def)
  have i: "(2::nat) < nat (depth default_config)" by (simp add: default_config_def)
  have g: "growth default_config = of_int 2" by (simp add: default_config_def)
  have z: "(0::int) \<le> 2" by simp
  have h: "hidden default_config \<le> max_hidden default_config" by (simp add: default_config_def)
  have mh: "0 \<le> max_hidden default_config" by (simp add: default_config_def)
  have "\<exists>cin cout post.
          encoder m ! 2 =
            \<lparr>built_at = 2, layers = [Conv1d cin 256 8 2, ReLU, Conv1d 256 512 1 1, GLU 1]\<rparr>
          \<and> decoder m ! 2 =
            \<lparr>built_at = 2,
             layers = Conv1d 256 512 1 1 # GLU 1 # ConvTranspose1d 256 cout 8 2 # post\<rparr>"
    using channel_widths [OF m i g z h mh]
    by (simp add: default_config_def ch_scale_def activation_def)
  then show ?thesis using m i g z h mh by blast
qed

section \<open>Facts about the forward pass\<close>

lemma and_then_simps [simp]:
  "and_then (Inl e) f = Inl e"
  "and_then (Inr x) f = f x"
  by (simp_all add: and_then_def)


















lemma conv1d_length: "conv1d ci co k s x = Inr y \<Longrightarrow> length y = length x"
  by (induction ci co k s x rule: conv1d.induct) (auto split: if_splits)

lemma conv_transpose1d_length: "conv_transpose1d ci co k s x = Inr y \<Longrightarrow> length y = length x"
  by (induction ci co k s x rule: conv_transpose1d.induct) (auto split: if_splits)

lemma lstm_shape_length: "lstm_shape i h bi x = Inr y \<Longrightarrow> length y = length x"
  by (induction i h bi x rule: lstm_shape.induct) (auto split: if_splits)

lemma apply_layer_length: "apply_layer l x = Inr y \<Longrightarrow> length y = length x"
  by (cases l)
    (auto simp: glu_shape_def linear_shape_def set_last_def
      dest: conv1d_length conv_transpose1d_length lstm_shape_length split: if_splits)

lemma bit_head_rank:
  assumes "bit_head m x = Inr y"
  shows "length y = 2"
  using assms
  by (auto simp: bit_head_def and_then_def transpose12_def flatten1_def
      split: sum.splits if_splits)

lemma v2_head_raises:
  assumes "length x = 2"
  shows "\<exists>e. v2_head m x = Inl e"
proof (cases "apply_layer (output_bit1 m) x")
  case (Inl e)
  then show ?thesis by (simp add: v2_head_def)
next
  case (Inr x1)
  then have "length x1 = 2" using assms by (simp add: apply_layer_length)
  then have "transpose12 x1 = Inl IndexError" by (simp add: transpose12_def)
  then show ?thesis using Inr by (simp add: v2_head_def)
qed

lemma forward_never_returns: "\<exists>e. forward m mix = Inl e"
proof (cases "forward_bits m mix")
  case (Inl e)
  then show ?thesis by (simp add: forward_def)
next
  case (Inr p)
  obtain std x where p: "p = (std, x)" by (cases p)
  from Inr p have "\<exists>t. bit_head m t = Inr x"
    by (auto simp: forward_bits_def and_then_def split: sum.splits)
  then have "length x = 2" using bit_head_rank by blast
  then obtain e where "v2_head m x = Inl e" using v2_head_raises by blast
  then show ?thesis using Inr p by (simp add: forward_def)
qed

text \<open>
  On \<open>slack_config\<close> and an input of one sample the skip of the outer stage is one sample
  longer than the feature map it is added to, and is cut to its length.
\<close>

lemma skip_truncation_example:
  "map_sum id (\<lambda>m. map_sum id
       (\<lambda>t. map (\<lambda>a. (skip_index a, skip_shape a, cut_shape a, x_shape a, sum_shape a))
              (t_additions t))
       (forward_trunk m [1, 2, 1])) (fst (init slack_config))
   = Inr (Inr [(1, [1, 128, 1], [1, 128, 1], [1, 128, 1], [1, 128, 1]),
               (0, [1, 64, 6], [1, 64, 5], [1, 64, 5], [1, 64, 5])])"
  by code_simp






text \<open>
  C4 says that \<open>forward\<close> returns \<open>std\<close> times the flattened output of the first head. The
  code rebinds \<open>x\<close> to that flattened, two-dimensional tensor before the second head reads
  it, so \<open>output_bit1\<close> receives a tensor without a batch axis and \<open>transpose(x1, 1, 2)\<close>
  is out of range: on the default configuration and a batch of two inputs of 40960
  samples the first head yields batch by 5120 and the pass then raises. (A framework
  release that takes no unbatched input raises one line earlier, in \<open>output_bit1\<close>.)
\<close>

theorem forward_raises:
  "map_sum id (\<lambda>m. (forward_bits m [2, 2, 40960], forward m [2, 2, 40960]))
     (fst (init default_config))
   = Inr (Inr ([], [2, 5120]), Inl IndexError)"
  by code_simp

end
